theory Spec2Isabelle
  imports Complex_Main "HOL-Library.Multiset"
begin

section \<open>Numbers\<close>

text \<open>
  The program computes with \<open>float_sylph_t\<close> (a C++ \<open>double\<close>) and, in the matrix kernel,
  with a template element type \<open>T\<close>.  Both are modelled by the exact reals: every property
  below is a property of the algorithm in exact arithmetic.  Where the source divides and the
  divisor can be zero, the model writes the division out as a separate outcome.
\<close>

type_synonym float_sylph_t = real

section \<open>Command-line options: \<open>struct Options\<close>\<close>

datatype sync_strategy =
    INS_GPS_SYNC_OFFLINE
  | INS_GPS_SYNC_BACK_PROPAGATION
  | INS_GPS_SYNC_REALTIME

datatype time_stamp_mode = ITOW | CALENDAR_TIME

datatype attitude_mode = NOT_GIVEN | YAW_ONLY | YAW_PITCH | FULL_GIVEN

record gps_threshold_t =
  init_acc_2d :: float_sylph_t
  init_acc_v :: float_sylph_t
  cont_acc_2d :: float_sylph_t

record initial_attitude_t =
  yaw_deg :: float_sylph_t
  pitch_deg :: float_sylph_t
  roll_deg :: float_sylph_t
  mode :: attitude_mode

text \<open>
  The fields of \<open>Options\<close>.  \<open>reduce_1pps_sync_error\<close> is a field of the base class
  \<open>GlobalOptions\<close>, whose declaration is in \<open>analyze_common.h\<close>; it is read by the stream
  handlers below.  Streams and the debug property are not modelled.
\<close>

record options =
  dump_update :: bool
  dump_correct :: bool
  dump_stddev :: bool
  out_is_N_packet :: bool
  time_stamp_mode :: time_stamp_mode
  time_stamp_spec :: "string option"
  ins_gps_sync_strategy :: sync_strategy
  est_bias :: bool
  use_udkf :: bool
  use_egm :: bool
  back_propagate_depth :: float_sylph_t
  gps_fake_lock :: bool
  gps_threshold :: gps_threshold_t
  use_magnet :: bool
  mag_heading_accuracy_deg :: float_sylph_t
  yaw_correct_with_mag_when_speed_less_than_ms :: float_sylph_t
  initial_attitude :: initial_attitude_t
  init_misc_buf :: "string list"
  reduce_1pps_sync_error :: bool

text \<open>\<open>gps_threshold_t()\<close> and \<open>initial_attitude_t()\<close>: the default constructors.\<close>

definition gps_threshold_default :: gps_threshold_t where
  "gps_threshold_default = \<lparr>init_acc_2d = 20, init_acc_v = 10, cont_acc_2d = 100\<rparr>"

definition initial_attitude_default :: initial_attitude_t where
  "initial_attitude_default = \<lparr>yaw_deg = 0, pitch_deg = 0, roll_deg = 0, mode = NOT_GIVEN\<rparr>"

text \<open>
  \<open>Options()\<close>.  The depth of back propagation and \<open>reduce_1pps_sync_error\<close> are set by
  constructors that are not part of the sources at hand, so they are arguments.
\<close>

definition Options :: "float_sylph_t \<Rightarrow> bool \<Rightarrow> options" where
  "Options bp_depth reduce_1pps =
     \<lparr>dump_update = True, dump_correct = False, dump_stddev = False,
      out_is_N_packet = False,
      time_stamp_mode = ITOW, time_stamp_spec = None,
      ins_gps_sync_strategy = INS_GPS_SYNC_OFFLINE,
      est_bias = True, use_udkf = False, use_egm = False,
      back_propagate_depth = bp_depth,
      gps_fake_lock = False, gps_threshold = gps_threshold_default,
      use_magnet = False,
      mag_heading_accuracy_deg = 3,
      yaw_correct_with_mag_when_speed_less_than_ms = 5,
      initial_attitude = initial_attitude_default,
      init_misc_buf = [],
      reduce_1pps_sync_error = reduce_1pps\<rparr>"

text \<open>
  \<open>initial_attitude_t::parse\<close>: \<open>sscanf(spec, "%lf,%lf,%lf", ...)\<close> converts a prefix of
  up to three numbers; the list \<open>conv\<close> holds the numbers it converted.  The mode is the
  number of conversions when that is positive.
\<close>

definition parse :: "float_sylph_t list \<Rightarrow> initial_attitude_t \<Rightarrow> initial_attitude_t" where
  "parse conv atti =
     (case conv of
        [] \<Rightarrow> atti
      | [y] \<Rightarrow> atti\<lparr>yaw_deg := y, mode := YAW_ONLY\<rparr>
      | [y, p] \<Rightarrow> atti\<lparr>yaw_deg := y, pitch_deg := p, mode := YAW_PITCH\<rparr>
      | y # p # r # _ \<Rightarrow> atti\<lparr>yaw_deg := y, pitch_deg := p, roll_deg := r, mode := FULL_GIVEN\<rparr>)"

definition parse_yaw :: "float_sylph_t \<Rightarrow> initial_attitude_t \<Rightarrow> initial_attitude_t" where
  "parse_yaw y atti = atti\<lparr>yaw_deg := y, mode := YAW_ONLY\<rparr>"

text \<open>
  The helpers of \<open>GlobalOptions\<close> and of the C library that \<open>check_spec\<close> calls.  Their
  code is not among the sources, so \<open>check_spec\<close> takes them as a parameter:
  \<^item> \<open>get_key spec\<close> is the key of the argument, empty when \<open>get_key\<close> returns length 0;
  \<^item> \<open>get_value spec accept_no_value\<close> is the value, \<open>None\<close> for a null pointer;
  \<^item> \<open>is_true\<close>, \<open>atof\<close>, \<open>sscanf3\<close> (the numbers \<open>sscanf\<close> converts);
  \<^item> \<open>calendar_spec_ok\<close>: \<open>calendar_spec_parse\<close> does not call \<open>exit\<close> on the value;
  \<^item> \<open>check_debug_property_spec\<close> of the debug property;
  \<^item> \<open>super_check_spec\<close>: \<open>GlobalOptions::check_spec\<close>.
\<close>

record helpers =
  get_key :: "string \<Rightarrow> string"
  get_value :: "string \<Rightarrow> bool \<Rightarrow> string option"
  is_true :: "string option \<Rightarrow> bool"
  atof :: "string \<Rightarrow> float_sylph_t"
  sscanf3 :: "string \<Rightarrow> float_sylph_t list"
  calendar_spec_ok :: "string option \<Rightarrow> bool"
  check_debug_property_spec :: "string \<Rightarrow> bool"
  super_check_spec :: "string \<Rightarrow> options \<Rightarrow> bool \<times> options"

text \<open>
  The outcome of \<open>check_spec\<close>: the returned flag (true when the argument was consumed)
  with the options as the call left them, or the process exit that
  \<open>calendar_spec_parse\<close> performs.
\<close>

datatype check_result = Returned bool options | Exited int

text \<open>
  \<open>CHECK_OPTION(name, accept_no_value, operation, disp)\<close> for an argument whose key is
  \<open>name\<close>: without a value where one is required it returns false, otherwise it runs the
  operation and returns true.
\<close>

definition CHECK_OPTION ::
  "helpers \<Rightarrow> string \<Rightarrow> bool \<Rightarrow> (string option \<Rightarrow> options \<Rightarrow> options) \<Rightarrow> options \<Rightarrow> check_result" where
  "CHECK_OPTION h spec accept_no_value operation opts =
     (let v = get_value h spec accept_no_value in
      if \<not> accept_no_value \<and> v = None then Returned False opts
      else Returned True (operation v opts))"

definition CHECK_OPTION_BOOL ::
  "helpers \<Rightarrow> string \<Rightarrow> (bool \<Rightarrow> options \<Rightarrow> options) \<Rightarrow> options \<Rightarrow> check_result" where
  "CHECK_OPTION_BOOL h spec assign opts =
     CHECK_OPTION h spec True (\<lambda>v. assign (is_true h v)) opts"

text \<open>\<open>Options::check_spec\<close>: the keys in the order of the source, aliases first.\<close>

definition check_spec :: "helpers \<Rightarrow> string \<Rightarrow> options \<Rightarrow> check_result" where
  "check_spec h spec opts =
    (let k = get_key h spec in
     if k = [] then (case super_check_spec h spec opts of (b, o') \<Rightarrow> Returned b o')
     else if k = ''dump-update'' \<or> k = ''dump_update'' then
       CHECK_OPTION_BOOL h spec (\<lambda>b o'. o'\<lparr>dump_update := b\<rparr>) opts
     else if k = ''dump-correct'' \<or> k = ''dump_correct'' then
       CHECK_OPTION_BOOL h spec (\<lambda>b o'. o'\<lparr>dump_correct := b\<rparr>) opts
     else if k = ''dump_stddev'' then
       CHECK_OPTION_BOOL h spec (\<lambda>b o'. o'\<lparr>dump_stddev := b\<rparr>) opts
     else if k = ''out_N_packet'' \<or> k = ''out_is_N_packet'' then
       CHECK_OPTION_BOOL h spec (\<lambda>b o'. o'\<lparr>out_is_N_packet := b\<rparr>) opts
     else if k = ''calendar_time'' then
       (let v = get_value h spec True in
        if calendar_spec_ok h v
        then Returned True (opts\<lparr>time_stamp_mode := CALENDAR_TIME, time_stamp_spec := v\<rparr>)
        else Exited (- 1))
     else if k = ''back_propagate'' then
       CHECK_OPTION h spec True
         (\<lambda>v o'. if is_true h v
                  then o'\<lparr>ins_gps_sync_strategy := INS_GPS_SYNC_BACK_PROPAGATION\<rparr> else o') opts
     else if k = ''realtime'' then
       CHECK_OPTION h spec True
         (\<lambda>v o'. if is_true h v
                  then o'\<lparr>ins_gps_sync_strategy := INS_GPS_SYNC_REALTIME\<rparr> else o') opts
     else if k = ''est_bias'' then
       CHECK_OPTION_BOOL h spec (\<lambda>b o'. o'\<lparr>est_bias := b\<rparr>) opts
     else if k = ''use_udkf'' then
       CHECK_OPTION_BOOL h spec (\<lambda>b o'. o'\<lparr>use_udkf := b\<rparr>) opts
     else if k = ''use_egm'' then
       CHECK_OPTION_BOOL h spec (\<lambda>b o'. o'\<lparr>use_egm := b\<rparr>) opts
     else if k = ''bp_depth'' then
       CHECK_OPTION h spec False
         (\<lambda>v o'. o'\<lparr>back_propagate_depth := atof h (the v)\<rparr>) opts
     else if k = ''fake_lock'' \<or> k = ''gps_fake_lock'' then
       CHECK_OPTION_BOOL h spec (\<lambda>b o'. o'\<lparr>gps_fake_lock := b\<rparr>) opts
     else if k = ''gps_init_acc_2d'' then
       CHECK_OPTION h spec False
         (\<lambda>v o'. o'\<lparr>gps_threshold := (gps_threshold o')\<lparr>init_acc_2d := atof h (the v)\<rparr>\<rparr>) opts
     else if k = ''gps_init_acc_v'' then
       CHECK_OPTION h spec False
         (\<lambda>v o'. o'\<lparr>gps_threshold := (gps_threshold o')\<lparr>init_acc_v := atof h (the v)\<rparr>\<rparr>) opts
     else if k = ''gps_cont_acc_2d'' then
       CHECK_OPTION h spec False
         (\<lambda>v o'. o'\<lparr>gps_threshold := (gps_threshold o')\<lparr>cont_acc_2d := atof h (the v)\<rparr>\<rparr>) opts
     else if k = ''use_magnet'' then
       CHECK_OPTION_BOOL h spec (\<lambda>b o'. o'\<lparr>use_magnet := b\<rparr>) opts
     else if k = ''mag_heading_accuracy_deg'' then
       CHECK_OPTION h spec False
         (\<lambda>v o'. o'\<lparr>mag_heading_accuracy_deg := atof h (the v)\<rparr>) opts
     else if k = ''yaw_correct_with_mag_when_speed_less_than_ms'' then
       CHECK_OPTION h spec False
         (\<lambda>v o'. o'\<lparr>yaw_correct_with_mag_when_speed_less_than_ms := atof h (the v)\<rparr>) opts
     else if k = ''init-attitude-deg'' \<or> k = ''init_attitude_deg'' then
       CHECK_OPTION h spec False
         (\<lambda>v o'. o'\<lparr>initial_attitude := parse (sscanf3 h (the v)) (initial_attitude o')\<rparr>) opts
     else if k = ''init-yaw-deg'' \<or> k = ''init_yaw_deg'' then
       CHECK_OPTION h spec False
         (\<lambda>v o'. o'\<lparr>initial_attitude := parse_yaw (atof h (the v)) (initial_attitude o')\<rparr>) opts
     else if k = ''init_misc'' then
       CHECK_OPTION h spec False
         (\<lambda>v o'. o'\<lparr>init_misc_buf := init_misc_buf o' @ [the v]\<rparr>) opts
     else if k = ''init_misc_fname'' then
       CHECK_OPTION h spec False (\<lambda>v o'. o') opts
     else if k = ''debug'' then
       (case get_value h spec False of
          None \<Rightarrow> Returned False opts
        | Some v \<Rightarrow>
            if check_debug_property_spec h v then Returned True opts
            else (case super_check_spec h spec opts of (b, o') \<Rightarrow> Returned b o'))
     else (case super_check_spec h spec opts of (b, o') \<Rightarrow> Returned b o'))"

text \<open>
  The option loop of \<open>main\<close>.  \<open>args\<close> are \<open>argv[1]\<close>, \<open>argv[2]\<close>, ...; \<open>args_proc\<close>
  and \<open>args_proc_common\<close> collect the arguments that belong to a log stream,
  \<open>flag_common\<close> is set by \<open>--common\<close>, \<open>n\<close> counts the stream processors pushed so far.
  An argument that no stream processor takes is offered to \<open>options.check_spec\<close>; an
  argument that \<open>check_spec\<close> does not consume is opened as a log file (opening it is not
  modelled).  The result is the exit code when the process exits inside the loop, or the
  options and the number of logs after it.
  The three parameters stand for code that reads files: \<open>common_value\<close> is
  \<open>Options::get_value(arg, "common")\<close>, \<open>stream_dry\<close> is
  \<open>StreamProcessor::check_spec(arg, true)\<close> and \<open>stream_apply\<close> is
  \<open>StreamProcessor::check_spec(arg)\<close>.
\<close>

record stream_helpers =
  common_value :: "string \<Rightarrow> string option"
  stream_dry :: "string \<Rightarrow> bool"
  stream_apply :: "string \<Rightarrow> bool"

fun option_check ::
  "helpers \<Rightarrow> stream_helpers \<Rightarrow> string list \<Rightarrow> string list \<Rightarrow> string list \<Rightarrow> bool \<Rightarrow> nat
     \<Rightarrow> options \<Rightarrow> int + (options \<times> nat)" where
  "option_check h sh [] args_proc args_proc_common flag_common n opts =
     (if length args_proc > length args_proc_common then Inl (- 1) else Inr (opts, n))"
| "option_check h sh (a # as) args_proc args_proc_common flag_common n opts =
     (case common_value sh a of
        Some v \<Rightarrow> option_check h sh as args_proc args_proc_common (is_true h (Some v)) n opts
      | None \<Rightarrow>
          if stream_dry sh a
          then option_check h sh as (args_proc @ [a])
                 (if flag_common then args_proc_common @ [a] else args_proc_common) False n opts
          else (case check_spec h a opts of
                  Exited c \<Rightarrow> Inl c
                | Returned True o' \<Rightarrow>
                    option_check h sh as args_proc args_proc_common False n o'
                | Returned False o' \<Rightarrow>
                    if \<exists>x \<in> set args_proc. \<not> stream_apply sh x then Inl (- 1)
                    else option_check h sh as args_proc_common args_proc_common False (Suc n) o'))"

text \<open>
  \<open>main\<close> up to the call of \<open>loop()\<close>: the exit code, or the options \<open>loop()\<close> runs with.
\<close>

definition main_options ::
  "helpers \<Rightarrow> stream_helpers \<Rightarrow> string list \<Rightarrow> options \<Rightarrow> int + options" where
  "main_options h sh args opts =
     (if args = [] then Inl (- 1)
      else (case option_check h sh args [] [] False 0 opts of
              Inl c \<Rightarrow> Inl c
            | Inr (o', n) \<Rightarrow>
                if n = 0 then Inl (- 1)
                else if n > 1 then Inl (- 1)
                else Inr o'))"

text \<open>
  Modelled from the spec: the lexer of \<open>GlobalOptions\<close> (\<open>get_key\<close>, \<open>get_value\<close>,
  \<open>is_true\<close>; \<open>analyze_common.h\<close> is not among the sources).  Section 6 of the
  specification writes an option as \<open>--key\<close> or \<open>--key=value\<close> and calls the flags
  boolean.  This instance is used only to run \<open>check_spec\<close> on concrete command lines.
\<close>

definition plain_helpers :: helpers where
  "plain_helpers =
     \<lparr>get_key = (\<lambda>s. if take 2 s = ''--'' then takeWhile (\<lambda>c. c \<noteq> CHR ''='') (drop 2 s) else []),
      get_value = (\<lambda>s accept_no_value.
         case dropWhile (\<lambda>c. c \<noteq> CHR ''='') s of
           [] \<Rightarrow> if accept_no_value then Some ''true'' else None
         | _ # v \<Rightarrow> Some v),
      is_true = (\<lambda>v. v = Some ''true'' \<or> v = Some ''on''),
      atof = (\<lambda>_. 0),
      sscanf3 = (\<lambda>_. []),
      calendar_spec_ok = (\<lambda>_. True),
      check_debug_property_spec = (\<lambda>_. False),
      super_check_spec = (\<lambda>_ opts. (False, opts))\<rparr>"

definition plain_stream_helpers :: stream_helpers where
  "plain_stream_helpers =
     \<lparr>common_value = (\<lambda>_. None), stream_dry = (\<lambda>_. False), stream_apply = (\<lambda>_. True)\<rparr>"

section \<open>Packets\<close>

type_synonym vec3_t = "float_sylph_t \<times> float_sylph_t \<times> float_sylph_t"

definition vadd :: "vec3_t \<Rightarrow> vec3_t \<Rightarrow> vec3_t" where
  "vadd u v = (case u of (a, b, c) \<Rightarrow> case v of (x, y, z) \<Rightarrow> (a + x, b + y, c + z))"

definition vscale :: "vec3_t \<Rightarrow> float_sylph_t \<Rightarrow> vec3_t" where
  "vscale u k = (case u of (a, b, c) \<Rightarrow> (a * k, b * k, c * k))"

definition vabs :: "vec3_t \<Rightarrow> float_sylph_t" where
  "vabs u = (case u of (a, b, c) \<Rightarrow> sqrt (a * a + b * b + c * c))"

text \<open>
  \<open>struct Packet\<close> and the packets derived from it.  The fields of \<open>GPS_Solution\<close> are
  those the code reads.  \<open>lever_arm\<close> is a pointer in the source, \<open>None\<close> when null.
\<close>

record Packet =
  itow :: float_sylph_t

record A_Packet = Packet +
  accel :: vec3_t
  omega :: vec3_t

record GPS_Solution =
  latitude :: float_sylph_t
  longitude :: float_sylph_t
  height :: float_sylph_t
  v_n :: float_sylph_t
  v_e :: float_sylph_t
  v_d :: float_sylph_t
  sigma_2d :: float_sylph_t
  sigma_height :: float_sylph_t
  sigma_vel :: float_sylph_t

record G_Packet = Packet +
  solution :: GPS_Solution
  lever_arm :: "vec3_t option"

record M_Packet = Packet +
  mag :: vec3_t

record TimePacket = Packet +
  week_num :: int
  leap_sec :: int
  valid_week_num :: bool
  valid_leap_sec :: bool

definition one_week :: int where
  "one_week = 60 * 60 * 24 * 7"

text \<open>\<open>Packet::interval\<close>: positive when \<open>another\<close> is later.\<close>

definition interval :: "'a Packet_scheme \<Rightarrow> 'b Packet_scheme \<Rightarrow> float_sylph_t" where
  "interval p another = itow another - itow p"

text \<open>\<open>Packet::compare\<close>.\<close>

definition compare :: "'a Packet_scheme \<Rightarrow> 'b Packet_scheme \<Rightarrow> bool" where
  "compare a b \<longleftrightarrow> itow a < itow b"

text \<open>\<open>Packet::interval_rollover\<close>: the interval reduced to \<open>[-one_week/2, one_week/2)\<close>.\<close>

definition interval_rollover :: "'a Packet_scheme \<Rightarrow> 'b Packet_scheme \<Rightarrow> float_sylph_t" where
  "interval_rollover p another =
     (let delta = itow another - itow p
      in delta - of_int (\<lfloor>delta / of_int one_week + 0.5\<rfloor>) * of_int one_week)"


text \<open>
  \<open>NAV::nearest\<close>: the index of the head of the group of \<open>group_size\<close> consecutive packets
  whose element at offset \<open>group_size / 2\<close> is the first one not before \<open>t\<close>; the last
  group when there is none.  The source moves two iterators along the container; here the
  container shrinks from the front and the index counts the steps.
\<close>

fun nearest :: "'a Packet_scheme list \<Rightarrow> float_sylph_t \<Rightarrow> nat \<Rightarrow> nat" where
  "nearest [] t group_size = 0"
| "nearest (x # xs) t group_size =
     (if length (x # xs) > group_size
      then (if itow ((x # xs) ! (group_size div 2)) \<ge> t then 0
            else Suc (nearest xs t group_size))
      else 0)"

section \<open>The filter behind \<open>INS_GPS_NAV\<close>\<close>

text \<open>
  The strapdown mechanization and the Kalman filter (\<open>INS_GPS\<close>, \<open>Filtered_INS2\<close>,
  \<open>INS_GPS_RealTime\<close>, ...) are not among the sources.  The model keeps what the code
  at hand does to the filter: the calls it makes, in order.  The state of the filter is a
  function of that sequence, so the filter is unchanged exactly when no call is added.
  \<open>Correct_yaw m\<close> stands for \<open>nav.correct_yaw(nav.get_mag_delta_yaw(m, *ins_gps))\<close>; an
  angle that is not a number (a division of zero by zero) is \<open>None\<close>.
\<close>

datatype nav_call =
    Update vec3_t vec3_t float_sylph_t
  | Setup_correct float_sylph_t
  | Correct G_Packet
  | Correct_lever G_Packet vec3_t vec3_t
  | Correct_yaw "vec3_t option"
  | InitPosition float_sylph_t float_sylph_t float_sylph_t
  | InitVelocity float_sylph_t float_sylph_t float_sylph_t
  | InitAttitude "float_sylph_t option" "float_sylph_t option" "float_sylph_t option"
  | Init_misc string

text \<open>
  \<open>calls\<close> is the filter; \<open>header_mode\<close> and \<open>header_itow\<close> are the mutable members
  \<open>mode\<close> and \<open>itow\<close> of \<open>INS_NAVData\<close> that \<open>set_header\<close> writes.
\<close>

record nav_t =
  calls :: "nav_call list"
  header_mode :: string
  header_itow :: float_sylph_t

definition INS_NAVData :: nav_t where
  "INS_NAVData = \<lparr>calls = [], header_mode = ''N/A'', header_itow = 0\<rparr>"

definition call :: "nav_call \<Rightarrow> nav_t \<Rightarrow> nav_t" where
  "call c n = n\<lparr>calls := calls n @ [c]\<rparr>"

definition set_header :: "string \<Rightarrow> nav_t \<Rightarrow> nav_t" where
  "set_header m n = n\<lparr>header_mode := m\<rparr>"

definition set_header_itow :: "string \<Rightarrow> float_sylph_t \<Rightarrow> nav_t \<Rightarrow> nav_t" where
  "set_header_itow m t n = n\<lparr>header_mode := m, header_itow := t\<rparr>"


text \<open>
  What the code at hand needs from outside: the synchronization variant of the filter
  class (\<open>INS_GPS_NAV_Factory::check_synchronization\<close> picks it from the options),
  \<open>INS_GPS_RealTime::setup_correct\<close> (a function of the filter and the advance),
  \<open>atan2\<close> and \<open>asin\<close> of \<open><cmath>\<close>, and \<open>NAV::get_mag_yaw\<close>, which needs the magnetic
  field model.
\<close>

record ins_gps_env =
  variant :: sync_strategy
  rt_setup_correct :: "nav_call list \<Rightarrow> float_sylph_t \<Rightarrow> bool"
  atan2 :: "float_sylph_t \<Rightarrow> float_sylph_t \<Rightarrow> float_sylph_t"
  asin :: "float_sylph_t \<Rightarrow> float_sylph_t"
  get_mag_yaw :: "vec3_t \<Rightarrow> float_sylph_t \<Rightarrow> float_sylph_t \<Rightarrow> float_sylph_t \<Rightarrow> float_sylph_t
                    \<Rightarrow> float_sylph_t \<Rightarrow> float_sylph_t"

definition deg2rad :: "float_sylph_t \<Rightarrow> float_sylph_t" where
  "deg2rad d = d * pi / 180"

section \<open>\<open>INS_GPS_NAV::Helper\<close>\<close>

datatype status_t =
    UNINITIALIZED
  | JUST_INITIALIZED
  | TIME_UPDATED
  | MEASUREMENT_UPDATED
  | WAITING_UPDATE

text \<open>The value of the enumerator, for the comparisons \<open>status >= JUST_INITIALIZED\<close>.\<close>

fun status_value :: "status_t \<Rightarrow> nat" where
  "status_value UNINITIALIZED = 0"
| "status_value JUST_INITIALIZED = 1"
| "status_value TIME_UPDATED = 2"
| "status_value MEASUREMENT_UPDATED = 3"
| "status_value WAITING_UPDATE = 4"

record 'p PacketBuffer =
  max_size :: nat
  buf :: "'p list"

definition PacketBuffer :: "nat \<Rightarrow> 'p PacketBuffer" where
  "PacketBuffer m = \<lparr>max_size = m, buf = []\<rparr>"

text \<open>
  \<open>PacketBuffer::push\<close>.  The source pops the front of a full buffer; \<open>max_size\<close> is 16 or
  at least 256, so a full buffer is not empty.
\<close>

definition push :: "'p \<Rightarrow> 'p PacketBuffer \<Rightarrow> 'p PacketBuffer" where
  "push packet b =
     b\<lparr>buf := (if length (buf b) \<ge> max_size b then tl (buf b) else buf b) @ [packet]\<rparr>"

record helper =
  status :: status_t
  nav :: nav_t
  min_a_packets_for_init :: nat
  recent_a :: "A_Packet PacketBuffer"
  recent_m :: "M_Packet PacketBuffer"

text \<open>The constructor \<open>Helper(INS_GPS_NAV<INS_GPS> &)\<close>, with the global \<open>options\<close>.\<close>

definition Helper :: "options \<Rightarrow> helper" where
  "Helper opts =
     (let m = (if mode (initial_attitude opts) = FULL_GIVEN then 1 else 0x10)
      in \<lparr>status = UNINITIALIZED, nav = INS_NAVData,
          min_a_packets_for_init = m,
          recent_a = PacketBuffer (max m 0x100),
          recent_m = PacketBuffer 0x10\<rparr>)"

text \<open>
  A quotient of two \<open>double\<close>s whose divisor may be zero: IEEE 754 gives an infinity for a
  non-zero dividend and no number for zero by zero.
\<close>

datatype quotient = Finite float_sylph_t | PlusInf | MinusInf | NaN

definition fdiv :: "float_sylph_t \<Rightarrow> float_sylph_t \<Rightarrow> quotient" where
  "fdiv x y =
     (if y \<noteq> 0 then Finite (x / y)
      else if x > 0 then PlusInf else if x < 0 then MinusInf else NaN)"

text \<open>
  The two weights of \<open>get_mag\<close> for the samples at times \<open>ta\<close> and \<open>tb\<close>.  An infinite
  \<open>weight_a\<close> exceeds 3; when it is minus infinity, \<open>weight_b = 1 - weight_a\<close> is plus
  infinity and exceeds 3; when it is no number, no comparison holds and the result of
  \<open>get_mag\<close> is no vector of numbers (\<open>None\<close>).
\<close>

definition mag_weights ::
  "float_sylph_t \<Rightarrow> float_sylph_t \<Rightarrow> float_sylph_t \<Rightarrow> (float_sylph_t \<times> float_sylph_t) option" where
  "mag_weights ta tb t =
     (case fdiv (tb - t) (tb - ta) of
        Finite weight_a \<Rightarrow>
          (let weight_b = 1 - weight_a
           in if weight_a > 3 then Some (1, 0)
              else if weight_b > 3 then Some (0, 1)
              else Some (weight_a, weight_b))
      | PlusInf \<Rightarrow> Some (1, 0)
      | MinusInf \<Rightarrow> Some (0, 1)
      | NaN \<Rightarrow> None)"

text \<open>\<open>Helper::get_mag\<close>.\<close>

definition get_mag :: "M_Packet PacketBuffer \<Rightarrow> float_sylph_t \<Rightarrow> vec3_t option" where
  "get_mag recent t =
     (if length (buf recent) < 2 then Some (1, 0, 0)
      else
        (let i = nearest (buf recent) t 2;
             it_a = buf recent ! i;
             it_b = buf recent ! (i + 1)
         in case mag_weights (itow it_a) (itow it_b) t of
              None \<Rightarrow> None
            | Some (weight_a, weight_b) \<Rightarrow>
                Some (vadd (vscale (mag it_a) weight_a) (vscale (mag it_b) weight_b))))"

text \<open>\<open>Helper::before_any_update\<close> and \<open>Helper::compass\<close>.\<close>

definition before_any_update :: "helper \<Rightarrow> helper" where
  "before_any_update hp =
     (if status_value (status hp) \<ge> status_value JUST_INITIALIZED
      then hp\<lparr>status := WAITING_UPDATE\<rparr> else hp)"

definition compass :: "M_Packet \<Rightarrow> helper \<Rightarrow> helper" where
  "compass packet hp = hp\<lparr>recent_m := push packet (recent_m hp)\<rparr>"

definition INTERVAL_THRESHOLD :: float_sylph_t where
  "INTERVAL_THRESHOLD = 10"

text \<open>
  The protected \<open>Helper::time_update(a_packet, deltaT)\<close>: the roll over is checked first,
  then the interval; the update is skipped outside \<open>(0, INTERVAL_THRESHOLD)\<close>.
\<close>

definition time_update_dt :: "A_Packet \<Rightarrow> float_sylph_t \<Rightarrow> helper \<Rightarrow> helper" where
  "time_update_dt a_packet deltaT0 hp =
     (let deltaT = (if deltaT0 \<le> - of_int (one_week div 2)
                    then deltaT0 + of_int one_week else deltaT0)
      in if deltaT \<le> 0 \<or> deltaT \<ge> INTERVAL_THRESHOLD then hp
         else hp\<lparr>nav := call (Update (accel a_packet) (omega a_packet) deltaT) (nav hp),
                 status := TIME_UPDATED\<rparr>)"

text \<open>
  The public \<open>Helper::time_update(a_packet)\<close>.  \<open>recent_a.buf.back()\<close> is read only when
  the filter is initialized, and then the buffer is not empty (\<open>helper_inv\<close> below).
\<close>

definition time_update :: "A_Packet \<Rightarrow> helper \<Rightarrow> helper" where
  "time_update a_packet hp =
     (let hp1 =
        (if status_value (status hp) \<ge> status_value JUST_INITIALIZED
         then
           (let previous = last (buf (recent_a hp));
                deltaT = interval previous a_packet;
                hp2 = time_update_dt a_packet deltaT hp
            in hp2\<lparr>nav := set_header_itow ''TU'' (itow a_packet) (nav hp2)\<rparr>)
         else hp)
      in hp1\<lparr>recent_a := push a_packet (recent_a hp1)\<rparr>)"

text \<open>
  \<open>Helper::time_update_after_initialization\<close>: the buffered packets after the last one
  that is not later than the G packet (roll over considered) are replayed, each with the
  interval from the packet before it, the first with the interval from the G packet.
\<close>

fun replay :: "float_sylph_t \<Rightarrow> A_Packet list \<Rightarrow> helper \<Rightarrow> helper" where
  "replay t [] hp = hp"
| "replay t (a # as) hp = replay (itow a) as (time_update_dt a (itow a - t) hp)"

definition time_update_after_initialization :: "G_Packet \<Rightarrow> helper \<Rightarrow> helper" where
  "time_update_after_initialization g_packet hp =
     (let later = rev (takeWhile (\<lambda>a. \<not> interval_rollover g_packet a \<le> 0)
                         (rev (buf (recent_a hp))));
          hp1 = replay (itow g_packet) later hp
      in hp1\<lparr>nav := set_header_itow ''MU'' (itow g_packet) (nav hp1)\<rparr>)"

fun attitude_mode_value :: "attitude_mode \<Rightarrow> nat" where
  "attitude_mode_value NOT_GIVEN = 0"
| "attitude_mode_value YAW_ONLY = 1"
| "attitude_mode_value YAW_PITCH = 2"
| "attitude_mode_value FULL_GIVEN = 3"

text \<open>
  The attitude of \<open>Helper::initialize\<close>, as (yaw, pitch, roll).  The mean acceleration is
  normalized by its length; when that is zero the quotient is no number, and so are the
  angles computed from it.  The buffer holds at least one packet when \<open>initialize\<close> runs.
\<close>

definition initial_angles ::
  "ins_gps_env \<Rightarrow> options \<Rightarrow> helper \<Rightarrow> float_sylph_t \<Rightarrow> float_sylph_t \<Rightarrow> float_sylph_t
     \<Rightarrow> float_sylph_t
     \<Rightarrow> float_sylph_t option \<times> float_sylph_t option \<times> float_sylph_t option" where
  "initial_angles env opts hp t lat lon h =
     (let atti = initial_attitude opts;
          m = attitude_mode_value (mode atti);
          yaw = Some (deg2rad (yaw_deg atti));
          pitch = Some (deg2rad (pitch_deg atti));
          roll = Some (deg2rad (roll_deg atti))
      in if \<not> m < attitude_mode_value FULL_GIVEN then (yaw, pitch, roll)
         else
           (let acc = vscale (foldl vadd (0, 0, 0) (map accel (buf (recent_a hp))))
                        (1 / real (length (buf (recent_a hp))));
                acc_reg = (if vabs acc = 0 then None else Some (vscale acc (- 1 / vabs acc)));
                roll = map_option (\<lambda>(x, y, z). atan2 env y z) acc_reg
            in if m \<ge> attitude_mode_value YAW_PITCH then (yaw, pitch, roll)
               else
                 (let pitch = map_option (\<lambda>(x, y, z). - asin env x) acc_reg
                  in if m \<ge> attitude_mode_value YAW_ONLY then (yaw, pitch, roll)
                     else if buf (recent_m hp) \<noteq> []
                     then ((case (get_mag (recent_m hp) t, pitch, roll) of
                              (Some mg, Some p, Some r) \<Rightarrow> Some (get_mag_yaw env mg p r lat lon h)
                            | _ \<Rightarrow> None), pitch, roll)
                     else (yaw, pitch, roll))))"

text \<open>
  \<open>Helper::initialize\<close>.  The lines of \<open>options.init_misc\<close> are those given with
  \<open>--init_misc\<close>; the empty line that ends the stream has no effect.
\<close>

definition initialize ::
  "ins_gps_env \<Rightarrow> options \<Rightarrow> float_sylph_t \<Rightarrow> float_sylph_t \<Rightarrow> float_sylph_t \<Rightarrow> float_sylph_t
     \<Rightarrow> float_sylph_t \<Rightarrow> float_sylph_t \<Rightarrow> float_sylph_t \<Rightarrow> helper \<Rightarrow> helper" where
  "initialize env opts t lat lon h v_north v_east v_down hp =
     (case initial_angles env opts hp t lat lon h of
        (yaw, pitch, roll) \<Rightarrow>
          hp\<lparr>status := JUST_INITIALIZED,
             nav := (nav hp)\<lparr>calls := calls (nav hp)
                       @ [InitPosition lat lon h, InitVelocity v_north v_east v_down,
                          InitAttitude yaw pitch roll]
                       @ map Init_misc (init_misc_buf opts)\<rparr>\<rparr>)"

text \<open>
  \<open>Helper::time_update_before_measurement_update\<close>: nothing for the real-time filter,
  else a time update up to the GPS observation when that is ahead.
\<close>

definition time_update_before_measurement_update ::
  "ins_gps_env \<Rightarrow> float_sylph_t \<Rightarrow> helper \<Rightarrow> helper" where
  "time_update_before_measurement_update env advanceT hp =
     (if variant env = INS_GPS_SYNC_REALTIME then hp
      else if advanceT \<le> 0 then hp
      else time_update_dt (last (buf (recent_a hp))) advanceT hp)"

text \<open>
  \<open>INS_GPS_NAV::correct(gps, ..., advanceT)\<close>: the real-time filter is asked first whether
  it can be set up for the advance; the other filters are corrected at once.
\<close>

definition correct :: "ins_gps_env \<Rightarrow> nav_call \<Rightarrow> float_sylph_t \<Rightarrow> nav_t \<Rightarrow> nav_t" where
  "correct env c advanceT n =
     (if variant env = INS_GPS_SYNC_REALTIME
      then (if rt_setup_correct env (calls n) advanceT
            then call c (call (Setup_correct advanceT) n)
            else call (Setup_correct advanceT) n)
      else call c n)"

text \<open>\<open>Helper::measurement_update\<close>.\<close>

definition measurement_update :: "ins_gps_env \<Rightarrow> options \<Rightarrow> G_Packet \<Rightarrow> helper \<Rightarrow> helper" where
  "measurement_update env opts g_packet hp =
     (if sigma_2d (solution g_packet) \<ge> cont_acc_2d (gps_threshold opts) then hp
      else if status_value (status hp) \<ge> status_value JUST_INITIALIZED then
        (let gps_advance = interval (last (buf (recent_a hp))) g_packet;
             hp1 = time_update_before_measurement_update env gps_advance hp;
             n1 = (case lever_arm g_packet of
                     Some lever \<Rightarrow>
                       (let packets_for_mean = 0x10;
                            it = nearest (buf (recent_a hp1)) (itow g_packet) packets_for_mean;
                            used = take packets_for_mean (drop it (buf (recent_a hp1)));
                            omega_b2i_4n = vscale (foldl vadd (0, 0, 0) (map omega used))
                                             (1 / real (length used))
                        in correct env (Correct_lever g_packet lever omega_b2i_4n) gps_advance
                             (nav hp1))
                   | None \<Rightarrow> correct env (Correct g_packet) gps_advance (nav hp1));
             n2 = (if buf (recent_m hp1) \<noteq> []
                     \<and> yaw_correct_with_mag_when_speed_less_than_ms opts > 0
                     \<and> (v_n (solution g_packet))\<^sup>2 + (v_e (solution g_packet))\<^sup>2
                         < (yaw_correct_with_mag_when_speed_less_than_ms opts)\<^sup>2
                   then call (Correct_yaw (get_mag (recent_m hp1) (itow g_packet))) n1
                   else n1)
         in hp1\<lparr>status := MEASUREMENT_UPDATED, nav := set_header ''MU'' n2\<rparr>)
      else if length (buf (recent_a hp)) \<ge> min_a_packets_for_init hp
            \<and> \<bar>itow (hd (buf (recent_a hp))) - itow g_packet\<bar>
                < 0.1 * real (length (buf (recent_a hp)))
            \<and> sigma_2d (solution g_packet) \<le> init_acc_2d (gps_threshold opts)
            \<and> sigma_height (solution g_packet) \<le> init_acc_v (gps_threshold opts)
      then
        time_update_after_initialization g_packet
          (initialize env opts (itow g_packet)
             (latitude (solution g_packet)) (longitude (solution g_packet))
             (height (solution g_packet))
             (v_n (solution g_packet)) (v_e (solution g_packet)) (v_d (solution g_packet)) hp)
      else hp)"

text \<open>
  \<open>INS_GPS_NAV::update\<close> for the four kinds of packets; a time packet only feeds the
  calendar of the time stamps.
\<close>

datatype packet = Packet_A A_Packet | Packet_G G_Packet | Packet_M M_Packet | Packet_T TimePacket


fun update :: "ins_gps_env \<Rightarrow> options \<Rightarrow> packet \<Rightarrow> helper \<Rightarrow> helper" where
  "update env opts (Packet_A p) hp = time_update p (before_any_update hp)"
| "update env opts (Packet_G p) hp = measurement_update env opts p (before_any_update hp)"
| "update env opts (Packet_M p) hp = compass p (before_any_update hp)"
| "update env opts (Packet_T p) hp = hp"

text \<open>
  \<open>Helper::updated_items(void *)\<close>, for the filters without back propagation: the record
  (mode and time stamp of the header) that \<open>NAVDisplay::updated\<close> prints after an update.
\<close>

definition updated_items :: "options \<Rightarrow> helper \<Rightarrow> (string \<times> float_sylph_t) list" where
  "updated_items opts hp =
     (case status hp of
        TIME_UPDATED \<Rightarrow>
          if \<not> dump_update opts then [] else [(header_mode (nav hp), header_itow (nav hp))]
      | JUST_INITIALIZED \<Rightarrow>
          if \<not> dump_correct opts then [] else [(header_mode (nav hp), header_itow (nav hp))]
      | MEASUREMENT_UPDATED \<Rightarrow>
          if \<not> dump_correct opts then [] else [(header_mode (nav hp), header_itow (nav hp))]
      | _ \<Rightarrow> [])"

section \<open>\<open>StreamProcessor\<close>: the handlers of the A and M pages\<close>

text \<open>
  What a handler reads from the observer of a page: whether the page validates, its time
  stamp and its raw values.  The calibration that turns the raw values of an A page into
  acceleration and angular speed is a parameter.
\<close>

record A_Observer =
  A_validate :: bool
  A_fetch_ITOW :: float_sylph_t
  A_values :: "int list"
  A_temperature :: int

record calibration =
  raw2accel :: "int list \<Rightarrow> vec3_t"
  raw2omega :: "int list \<Rightarrow> vec3_t"

type_synonym short4 = "int \<times> int \<times> int \<times> int"

record M_Observer =
  M_validate :: bool
  M_fetch_ITOW :: float_sylph_t
  M_x :: short4
  M_y :: short4
  M_z :: short4

text \<open>\<open>packet_latest()\<close> of a handler is value-initialized: its time stamp is zero.\<close>

definition A_packet_latest :: A_Packet where
  "A_packet_latest = \<lparr>itow = 0, accel = (0, 0, 0), omega = (0, 0, 0)\<rparr>"

definition M_packet_latest :: M_Packet where
  "M_packet_latest = \<lparr>itow = 0, mag = (0, 0, 0)\<rparr>"

text \<open>
  The time stamp both handlers give the new packet: with \<open>reduce_1pps_sync_error\<close>, one
  second less when the stamp is at least one and less than two seconds after the stamp of
  \<open>packet_latest\<close>, the packet delivered before.
\<close>

definition reduce_1pps :: "options \<Rightarrow> float_sylph_t \<Rightarrow> float_sylph_t \<Rightarrow> float_sylph_t" where
  "reduce_1pps opts latest itow0 =
     (if reduce_1pps_sync_error opts
      then (let delta_t = itow0 - latest
            in if delta_t \<ge> 1 \<and> delta_t < 2 then itow0 - 1 else itow0)
      else itow0)"

text \<open>
  \<open>AHandler::operator()\<close>: the new \<open>packet_latest\<close>, and the packet handed to
  \<open>updatable->update\<close> if any.
\<close>

definition AHandler ::
  "options \<Rightarrow> calibration \<Rightarrow> A_Observer \<Rightarrow> A_Packet \<Rightarrow> A_Packet \<times> A_Packet option" where
  "AHandler opts cal observer packet_latest =
     (if \<not> A_validate observer then (packet_latest, None)
      else
        (let t = reduce_1pps opts (itow packet_latest) (A_fetch_ITOW observer);
             ch = take 8 (A_values observer) @ [A_temperature observer];
             p = \<lparr>itow = t, accel = raw2accel cal ch, omega = raw2omega cal ch\<rparr>
         in (p, Some p)))"

text \<open>The outlier test of \<open>MHandler::operator()\<close> on one axis.\<close>

definition outlier :: "short4 \<Rightarrow> bool" where
  "outlier t =
     (case t of (t0, t1, t2, t3) \<Rightarrow>
        \<exists>v \<in> set [t0, t1, t2]. \<bar>v - t3\<bar> > 200 \<and> \<bar>v - t3\<bar> < 4096 * 2 - 200)"

definition MHandler :: "options \<Rightarrow> M_Observer \<Rightarrow> M_Packet \<Rightarrow> M_Packet \<times> M_Packet option" where
  "MHandler opts observer packet_latest =
     (if \<not> M_validate observer then (packet_latest, None)
      else if outlier (M_x observer) \<or> outlier (M_y observer) \<or> outlier (M_z observer)
      then (packet_latest, None)
      else
        (let t = reduce_1pps opts (itow packet_latest) (M_fetch_ITOW observer);
             p = \<lparr>itow = t,
                  mag = (case (M_x observer, M_y observer, M_z observer) of
                           ((_, _, _, x3), (_, _, _, y3), (_, _, _, z3)) \<Rightarrow>
                             (of_int x3, of_int y3, of_int z3))\<rparr>
         in (p, Some p)))"

text \<open>
  The pages of one kind in a log, handed to the handler in order, starting from the
  value-initialized \<open>packet_latest\<close> or any other: the packets handed to
  \<open>updatable->update\<close>, in order.
\<close>

fun A_pages :: "options \<Rightarrow> calibration \<Rightarrow> A_Observer list \<Rightarrow> A_Packet \<Rightarrow> A_Packet list" where
  "A_pages opts cal [] packet_latest = []"
| "A_pages opts cal (observer # rest) packet_latest =
     (case AHandler opts cal observer packet_latest of
        (latest, None) \<Rightarrow> A_pages opts cal rest latest
      | (latest, Some p) \<Rightarrow> p # A_pages opts cal rest latest)"

fun M_pages :: "options \<Rightarrow> M_Observer list \<Rightarrow> M_Packet \<Rightarrow> M_Packet list" where
  "M_pages opts [] packet_latest = []"
| "M_pages opts (observer # rest) packet_latest =
     (case MHandler opts observer packet_latest of
        (latest, None) \<Rightarrow> M_pages opts rest latest
      | (latest, Some p) \<Rightarrow> p # M_pages opts rest latest)"

text \<open>The M pages that \<open>MHandler::operator()\<close> does not drop.\<close>

definition M_accepted :: "M_Observer \<Rightarrow> bool" where
  "M_accepted observer \<longleftrightarrow>
     M_validate observer
     \<and> \<not> outlier (M_x observer) \<and> \<not> outlier (M_y observer) \<and> \<not> outlier (M_z observer)"

section \<open>\<open>loop()\<close>: the buffer that sorts the packets\<close>















section \<open>Runs and sample data\<close>

text \<open>The helper of a navigation object that received the packets \<open>ps\<close>, in order.\<close>

definition run :: "ins_gps_env \<Rightarrow> options \<Rightarrow> packet list \<Rightarrow> helper" where
  "run env opts ps = foldl (\<lambda>hp p. update env opts p hp) (Helper opts) ps"

text \<open>
  The buffered A packets are read with \<open>back()\<close> and \<open>front()\<close> only where the invariant
  below makes the buffer non-empty.
\<close>

definition helper_inv :: "helper \<Rightarrow> bool" where
  "helper_inv hp \<longleftrightarrow>
     1 \<le> min_a_packets_for_init hp \<and> (status hp \<noteq> UNINITIALIZED \<longrightarrow> buf (recent_a hp) \<noteq> [])"

text \<open>Sample inputs, on which the results below are run.\<close>

definition zero_calibration :: calibration where
  "zero_calibration = \<lparr>raw2accel = (\<lambda>_. (0, 0, 0)), raw2omega = (\<lambda>_. (0, 0, 0))\<rparr>"

definition plain_env :: ins_gps_env where
  "plain_env = \<lparr>variant = INS_GPS_SYNC_OFFLINE, rt_setup_correct = (\<lambda>_ _. True),
     atan2 = (\<lambda>_ _. 0), asin = (\<lambda>_. 0), get_mag_yaw = (\<lambda>_ _ _ _ _ _. 0)\<rparr>"

definition sample_a :: "float_sylph_t \<Rightarrow> A_Packet" where
  "sample_a t = \<lparr>itow = t, accel = (0, 0, - 9.8), omega = (0, 0, 0)\<rparr>"

definition sample_m :: "float_sylph_t \<Rightarrow> vec3_t \<Rightarrow> M_Packet" where
  "sample_m t v = \<lparr>itow = t, mag = v\<rparr>"

definition sample_g :: "float_sylph_t \<Rightarrow> float_sylph_t \<Rightarrow> float_sylph_t \<Rightarrow> G_Packet" where
  "sample_g t s2d sh =
     \<lparr>itow = t,
      solution = \<lparr>latitude = 0, longitude = 0, height = 0, v_n = 0, v_e = 0, v_d = 0,
                  sigma_2d = s2d, sigma_height = sh, sigma_vel = 1\<rparr>,
      lever_arm = None\<rparr>"

definition sample_observer :: "float_sylph_t \<Rightarrow> A_Observer" where
  "sample_observer t = \<lparr>A_validate = True, A_fetch_ITOW = t, A_values = [], A_temperature = 0\<rparr>"

definition sample_m_observer :: "float_sylph_t \<Rightarrow> M_Observer" where
  "sample_m_observer t =
     \<lparr>M_validate = True, M_fetch_ITOW = t,
      M_x = (0, 0, 0, 0), M_y = (0, 0, 0, 0), M_z = (0, 0, 0, 0)\<rparr>"

text \<open>The options after \<open>--init_attitude_deg=0,0,0\<close>.\<close>

definition full_given_options :: options where
  "full_given_options =
     (Options 1 True)\<lparr>initial_attitude := parse [0, 0, 0] initial_attitude_default\<rparr>"

text \<open>A helper whose filter is running and whose last A packet has time stamp \<open>t\<close>.\<close>

definition running_helper :: "float_sylph_t \<Rightarrow> helper" where
  "running_helper t =
     (Helper (Options 1 True))
       \<lparr>status := TIME_UPDATED,
        recent_a := push (sample_a t) (recent_a (Helper (Options 1 True)))\<rparr>"



section \<open>The matrix library: the class template \<open>Matrix\<close>\<close>

text \<open>
  The element type \<open>T\<close> of the template is read as the field of the real numbers, so what
  is shown below of the matrix routines is a property of the algorithm in exact arithmetic.
  A matrix is its two sizes and its storage; the storage is a function on all index pairs,
  of which the routines read and write the ones inside the sizes.
\<close>

type_synonym T = real

record Matrix =
  rows :: nat
  columns :: nat
  elem :: "nat \<Rightarrow> nat \<Rightarrow> T"

text \<open>The assignment \<open>m(i, j) = v\<close>.\<close>

definition put :: "Matrix \<Rightarrow> nat \<Rightarrow> nat \<Rightarrow> T \<Rightarrow> Matrix" where
  "put m i j v = m\<lparr>elem := (elem m)(i := (elem m i)(j := v))\<rparr>"








subsection \<open>\<open>Matrix::decomposeUD\<close>\<close>







subsection \<open>\<open>Matrix::determinant\<close> of the older library: expansion by cofactors\<close>





subsection \<open>\<open>Matrix::decomposeLUP\<close> and \<open>Matrix::determinant_LU\<close> of the newer library\<close>









section \<open>The determinant as a function of the entries\<close>












section \<open>Sample matrices\<close>






section \<open>Results on the options\<close>

text \<open>
  C1 (as stated, refuted).  A command line with both \<open>--back_propagate\<close> and \<open>--realtime\<close>
  is not rejected: \<open>main\<close> reaches \<open>loop()\<close>, and the strategy is the one of the flag that
  comes last.
\<close>

theorem C1_both_flags_accepted:
  "map_sum id ins_gps_sync_strategy
     (main_options plain_helpers plain_stream_helpers
        [''--back_propagate'', ''--realtime'', ''log.dat''] (Options 1 True))
   = Inr INS_GPS_SYNC_REALTIME"
  by (simp add: main_options_def check_spec_def CHECK_OPTION_def plain_helpers_def
      plain_stream_helpers_def Options_def)

text \<open>
  C1 (amended).  \<open>check_spec\<close> has no conflict test.  Each of the two flags, when its value
  is true, is consumed and overwrites \<open>ins_gps_sync_strategy\<close>, whatever strategy an
  earlier flag selected; the options are otherwise unchanged.
\<close>

theorem C1_last_flag_wins:
  assumes "is_true h (get_value h spec True)"
    and "get_key h spec = ''realtime'' \<or> get_key h spec = ''back_propagate''"
  shows "check_spec h spec opts
           = Returned True (opts\<lparr>ins_gps_sync_strategy :=
               (if get_key h spec = ''realtime'' then INS_GPS_SYNC_REALTIME
                else INS_GPS_SYNC_BACK_PROPAGATION)\<rparr>)"
  using assms by (auto simp add: check_spec_def CHECK_OPTION_def)

theorem C1_last_flag_wins_witness:
  "check_spec plain_helpers ''--realtime''
     ((Options 1 True)\<lparr>ins_gps_sync_strategy := INS_GPS_SYNC_BACK_PROPAGATION\<rparr>)
   = Returned True ((Options 1 True)\<lparr>ins_gps_sync_strategy := INS_GPS_SYNC_REALTIME\<rparr>)"
  using C1_last_flag_wins [of plain_helpers "''--realtime''"
      "(Options 1 True)\<lparr>ins_gps_sync_strategy := INS_GPS_SYNC_BACK_PROPAGATION\<rparr>"]
  by (simp add: plain_helpers_def)


section \<open>Results on the fusion controller\<close>

lemma initialized_iff: "Suc 0 \<le> status_value s \<longleftrightarrow> s \<noteq> UNINITIALIZED"
  by (cases s) simp_all


lemma nearest_bound:
  "group_size \<le> length xs \<Longrightarrow> nearest xs t group_size + group_size \<le> length xs"
  by (induction xs) (auto split: if_splits)

lemma min_a_time_update_dt [simp]:
  "min_a_packets_for_init (time_update_dt a dt hp) = min_a_packets_for_init hp"
  and recent_a_time_update_dt [simp]: "recent_a (time_update_dt a dt hp) = recent_a hp"
  by (simp_all add: time_update_dt_def Let_def)

lemma min_a_replay [simp]: "min_a_packets_for_init (replay t as hp) = min_a_packets_for_init hp"
  and recent_a_replay [simp]: "recent_a (replay t as hp) = recent_a hp"
  by (induction as arbitrary: t hp) simp_all

lemma min_a_measurement_update [simp]:
  "min_a_packets_for_init (measurement_update env opts g hp) = min_a_packets_for_init hp"
  and recent_a_measurement_update [simp]:
  "recent_a (measurement_update env opts g hp) = recent_a hp"
  by (simp_all add: measurement_update_def time_update_before_measurement_update_def
      time_update_after_initialization_def initialize_def Let_def split: prod.splits)

lemma min_a_update [simp]:
  "min_a_packets_for_init (update env opts p hp) = min_a_packets_for_init hp"
  by (cases p) (simp_all add: before_any_update_def time_update_def compass_def Let_def)

lemma min_a_run: "min_a_packets_for_init (run env opts ps) = min_a_packets_for_init (Helper opts)"
  by (induction ps rule: rev_induct) (simp_all add: run_def)

text \<open>
  Every helper that a run of packets produces satisfies \<open>helper_inv\<close>: an initialized
  filter has a buffered A packet.
\<close>

lemma helper_inv_update: "helper_inv hp \<Longrightarrow> helper_inv (update env opts p hp)"
proof (cases p)
  case (Packet_A a)
  assume "helper_inv hp"
  then show ?thesis using Packet_A
    by (simp add: helper_inv_def time_update_def before_any_update_def push_def Let_def
        initialized_iff)
next
  case (Packet_G g)
  assume inv: "helper_inv hp"
  have "status (measurement_update env opts g (before_any_update hp)) \<noteq> UNINITIALIZED
        \<Longrightarrow> buf (recent_a hp) \<noteq> []"
    using inv
    by (auto simp add: helper_inv_def measurement_update_def before_any_update_def
        initialized_iff split: if_splits)
  then show ?thesis using Packet_G inv
    by (auto simp add: helper_inv_def before_any_update_def initialized_iff)
next
  case (Packet_M m)
  assume "helper_inv hp"
  then show ?thesis using Packet_M
    by (simp add: helper_inv_def compass_def before_any_update_def initialized_iff)
next
  case (Packet_T t)
  assume "helper_inv hp"
  then show ?thesis using Packet_T by simp
qed

lemma helper_inv_run: "helper_inv (run env opts ps)"
  by (induction ps rule: rev_induct)
     (simp_all add: run_def helper_inv_update, simp add: helper_inv_def Helper_def Let_def)



text \<open>
  C3.  A G packet whose \<open>sigma_2d\<close> is at least \<open>cont_acc_2d\<close> changes nothing, whatever
  the status.  A G packet that changes anything while the filter is uninitialized (it can
  only initialize it) has \<open>sigma_2d \<le> init_acc_2d\<close>, \<open>sigma_height \<le> init_acc_v\<close> and
  a time stamp closer to that of the oldest buffered A packet than 0.1 times the number of
  buffered A packets.  The defaults of the thresholds are 20, 10 and 100.
\<close>

theorem C3_gps_gate:
  "(sigma_2d (solution g) \<ge> cont_acc_2d (gps_threshold opts)
      \<longrightarrow> measurement_update env opts g hp = hp)
   \<and> (status hp = UNINITIALIZED \<and> measurement_update env opts g hp \<noteq> hp
      \<longrightarrow> sigma_2d (solution g) \<le> init_acc_2d (gps_threshold opts)
        \<and> sigma_height (solution g) \<le> init_acc_v (gps_threshold opts)
        \<and> \<bar>itow (hd (buf (recent_a hp))) - itow g\<bar> < 0.1 * real (length (buf (recent_a hp))))
   \<and> gps_threshold (Options d r) = \<lparr>init_acc_2d = 20, init_acc_v = 10, cont_acc_2d = 100\<rparr>"
  by (auto simp add: measurement_update_def Options_def gps_threshold_default_def)

lemma sample_initialization:
  "status (measurement_update plain_env full_given_options (sample_g 1 5 5)
     (update plain_env full_given_options (Packet_A (sample_a 1)) (Helper full_given_options)))
   = JUST_INITIALIZED"
  by (simp add: measurement_update_def full_given_options_def Options_def parse_def
      initial_attitude_default_def gps_threshold_default_def Helper_def PacketBuffer_def
      push_def time_update_def before_any_update_def sample_g_def sample_a_def
      time_update_after_initialization_def initialize_def initial_angles_def
      interval_rollover_def one_week_def set_header_itow_def Let_def)

theorem C3_gps_gate_witness:
  "measurement_update plain_env (Options 1 True) (sample_g 1 100 5) (running_helper 1)
     = running_helper 1
   \<and> status (measurement_update plain_env full_given_options (sample_g 1 5 5)
        (update plain_env full_given_options (Packet_A (sample_a 1)) (Helper full_given_options)))
     = JUST_INITIALIZED
   \<and> sigma_2d (solution (sample_g 1 5 5)) \<le> init_acc_2d (gps_threshold full_given_options)"
proof -
  let ?hp = "update plain_env full_given_options (Packet_A (sample_a 1)) (Helper full_given_options)"
  have u: "status ?hp = UNINITIALIZED"
    by (simp add: time_update_def before_any_update_def Helper_def Let_def)
  have "measurement_update plain_env full_given_options (sample_g 1 5 5) ?hp \<noteq> ?hp"
    using sample_initialization u by (metis status_t.distinct(1))
  then show ?thesis
    using u sample_initialization
      C3_gps_gate [where g = "sample_g 1 100 5" and opts = "Options 1 True" and env = plain_env
        and hp = "running_helper 1" and d = 1 and r = True]
      C3_gps_gate [where g = "sample_g 1 5 5" and opts = full_given_options and env = plain_env
        and hp = ?hp and d = 1 and r = True]
    by (simp add: sample_g_def Options_def gps_threshold_default_def)
qed

text \<open>
  C9.  In every helper that a run of packets produces, \<open>min_a_packets_for_init\<close> is 1
  when the mode of the initial attitude is \<open>FULL_GIVEN\<close> and 16 otherwise.  A G packet
  that arrives before that many A packets are buffered changes nothing, so the filter
  stays uninitialized; a G packet that initializes the filter finds at least that many.
  The mode is \<open>FULL_GIVEN\<close> when \<open>--init_attitude_deg\<close> gave yaw, pitch and roll.
\<close>

theorem C9_min_a_packets_for_init:
  assumes "hp = run env opts ps"
  shows "min_a_packets_for_init hp = (if mode (initial_attitude opts) = FULL_GIVEN then 1 else 16)
       \<and> (status hp = UNINITIALIZED \<and> length (buf (recent_a hp)) < min_a_packets_for_init hp
            \<longrightarrow> update env opts (Packet_G g) hp = hp)
       \<and> (status hp = UNINITIALIZED \<and> status (update env opts (Packet_G g) hp) \<noteq> UNINITIALIZED
            \<longrightarrow> min_a_packets_for_init hp \<le> length (buf (recent_a hp)))
       \<and> mode (parse (yaw # pitch # roll # rest) atti) = FULL_GIVEN"
  using assms
  by (auto simp add: min_a_run Helper_def measurement_update_def before_any_update_def parse_def
      Let_def)

theorem C9_min_a_packets_for_init_witness:
  "min_a_packets_for_init (run plain_env (Options 1 True) [Packet_A (sample_a 1)]) = 16
   \<and> update plain_env (Options 1 True) (Packet_G (sample_g 1 5 5))
        (run plain_env (Options 1 True) [Packet_A (sample_a 1)])
       = run plain_env (Options 1 True) [Packet_A (sample_a 1)]
   \<and> min_a_packets_for_init (run plain_env full_given_options [Packet_A (sample_a 1)])
       \<le> length (buf (recent_a (run plain_env full_given_options [Packet_A (sample_a 1)])))"
proof -
  let ?hp = "run plain_env (Options 1 True) [Packet_A (sample_a 1)]"
  let ?hq = "run plain_env full_given_options [Packet_A (sample_a 1)]"
  have 1: "status ?hp = UNINITIALIZED" "length (buf (recent_a ?hp)) = 1"
    by (simp_all add: run_def time_update_def before_any_update_def Helper_def Let_def push_def
        PacketBuffer_def)
  have 2: "mode (initial_attitude (Options 1 True)) \<noteq> FULL_GIVEN"
    by (simp add: Options_def initial_attitude_default_def)
  have 3: "status ?hq = UNINITIALIZED"
    by (simp add: run_def time_update_def before_any_update_def Helper_def Let_def)
  have 4: "status (update plain_env full_given_options (Packet_G (sample_g 1 5 5)) ?hq)
      \<noteq> UNINITIALIZED"
    using sample_initialization 3
    by (simp add: run_def before_any_update_def)
  show ?thesis
    using 1 2 3 4
      C9_min_a_packets_for_init [OF refl, where env = plain_env and opts = "Options 1 True"
        and ps = "[Packet_A (sample_a 1)]" and g = "sample_g 1 5 5" and yaw = 0 and pitch = 0
        and roll = 0 and rest = "[]" and atti = initial_attitude_default]
      C9_min_a_packets_for_init [OF refl, where env = plain_env and opts = full_given_options
        and ps = "[Packet_A (sample_a 1)]" and g = "sample_g 1 5 5" and yaw = 0 and pitch = 0
        and roll = 0 and rest = "[]" and atti = initial_attitude_default]
    by simp
qed

text \<open>
  C10.  With fewer than two buffered M packets \<open>get_mag\<close> returns the vector (1, 0, 0).
  With two or more it takes two neighbours in the buffer, the group that \<open>nearest\<close> finds,
  and returns their combination with the weights of \<open>mag_weights\<close>.  For samples at
  different times these are the weights \<open>w\<close> and \<open>1 - w\<close> of linear interpolation, with
  \<open>w = (tb - t) / (tb - ta)\<close>, replaced by 1 and 0 when \<open>w\<close> exceeds 3 and by 0 and 1 when
  \<open>1 - w\<close> exceeds 3.
\<close>

theorem C10_get_mag:
  "(length (buf b) < 2 \<longrightarrow> get_mag b t = Some (1, 0, 0))
   \<and> (2 \<le> length (buf b) \<longrightarrow>
        (let i = nearest (buf b) t 2; it_a = buf b ! i; it_b = buf b ! (i + 1)
         in i + 1 < length (buf b)
          \<and> get_mag b t = map_option (\<lambda>(wa, wb). vadd (vscale (mag it_a) wa) (vscale (mag it_b) wb))
                             (mag_weights (itow it_a) (itow it_b) t)))
   \<and> (tb \<noteq> ta \<longrightarrow>
        mag_weights ta tb t
          = Some (let w = (tb - t) / (tb - ta)
                  in if w > 3 then (1, 0) else if 1 - w > 3 then (0, 1) else (w, 1 - w)))"
  using nearest_bound [of 2 "buf b" t]
  by (auto simp add: get_mag_def mag_weights_def fdiv_def Let_def split: option.splits)

theorem C10_get_mag_witness:
  "get_mag (PacketBuffer 16) 1 = Some (1, 0, 0)
   \<and> get_mag (push (sample_m 2 (0, 4, 0)) (push (sample_m 1 (4, 0, 0)) (PacketBuffer 16))) 1.25
       = Some (3, 1, 0)
   \<and> mag_weights 1 2 9 = Some (0, 1)"
  using C10_get_mag [where b = "PacketBuffer 16" and t = 1 and tb = 2 and ta = 1]
    C10_get_mag [where b = "push (sample_m 2 (0, 4, 0)) (push (sample_m 1 (4, 0, 0)) (PacketBuffer 16))"
      and t = "1.25" and tb = 2 and ta = 1]
    C10_get_mag [where b = "PacketBuffer 16" and t = 9 and tb = 2 and ta = 1]
  by (simp add: PacketBuffer_def push_def sample_m_def vadd_def vscale_def Let_def)

section \<open>Results on the stream handlers\<close>

text \<open>
  C7 (as stated, refuted).  Without \<open>reduce_1pps_sync_error\<close> an A packet stamped 1.5 s
  after the one before it is delivered with its time stamp unchanged.
\<close>

theorem C7_not_reduced_without_option:
  "map_option itow (snd (AHandler (Options 1 False) zero_calibration (sample_observer 11.5)
       (sample_a 10))) = Some 11.5"
  by (simp add: AHandler_def reduce_1pps_def Options_def sample_observer_def sample_a_def Let_def)

lemma A_pages_reduce:
  "length (A_pages opts cal os l) = length (filter A_validate os)
   \<and> (\<forall>k<length (filter A_validate os).
         itow (A_pages opts cal os l ! k)
           = reduce_1pps opts (if k = 0 then itow l else itow (A_pages opts cal os l ! (k - 1)))
               (A_fetch_ITOW (filter A_validate os ! k)))"
proof (induction os arbitrary: l)
  case Nil
  then show ?case by simp
next
  case (Cons observer rest)
  show ?case
  proof (cases "A_validate observer")
    case False
    then show ?thesis using Cons [of l] by (simp add: AHandler_def)
  next
    case True
    define p where "p = fst (AHandler opts cal observer l)"
    have h: "AHandler opts cal observer l = (p, Some p)"
      using True by (simp add: p_def AHandler_def Let_def)
    have ip: "itow p = reduce_1pps opts (itow l) (A_fetch_ITOW observer)"
      using True by (simp add: p_def AHandler_def Let_def)
    have IH: "length (A_pages opts cal rest p) = length (filter A_validate rest)"
      "\<And>k. k < length (filter A_validate rest) \<Longrightarrow>
         itow (A_pages opts cal rest p ! k)
           = reduce_1pps opts (if k = 0 then itow p else itow (A_pages opts cal rest p ! (k - 1)))
               (A_fetch_ITOW (filter A_validate rest ! k))"
      using Cons [of p] by simp_all
    show ?thesis
    proof (intro conjI allI impI)
      show "length (A_pages opts cal (observer # rest) l) = length (filter A_validate (observer # rest))"
        using True by (simp add: h IH(1))
    next
      fix k assume k: "k < length (filter A_validate (observer # rest))"
      show "itow (A_pages opts cal (observer # rest) l ! k)
          = reduce_1pps opts
              (if k = 0 then itow l else itow (A_pages opts cal (observer # rest) l ! (k - 1)))
              (A_fetch_ITOW (filter A_validate (observer # rest) ! k))"
      proof (cases k)
        case 0
        then show ?thesis using True by (simp add: h ip)
      next
        case (Suc k')
        then have "k' < length (filter A_validate rest)" using k True by simp
        from IH(2) [OF this] show ?thesis
          using True by (cases k') (simp_all add: h Suc)
      qed
    qed
  qed
qed

lemma M_pages_reduce:
  "length (M_pages opts os l) = length (filter M_accepted os)
   \<and> (\<forall>k<length (filter M_accepted os).
         itow (M_pages opts os l ! k)
           = reduce_1pps opts (if k = 0 then itow l else itow (M_pages opts os l ! (k - 1)))
               (M_fetch_ITOW (filter M_accepted os ! k)))"
proof (induction os arbitrary: l)
  case Nil
  then show ?case by simp
next
  case (Cons observer rest)
  show ?case
  proof (cases "M_accepted observer")
    case False
    then have "MHandler opts observer l = (l, None)"
      by (auto simp add: MHandler_def M_accepted_def)
    then show ?thesis using Cons [of l] False by simp
  next
    case True
    define p where "p = fst (MHandler opts observer l)"
    have h: "MHandler opts observer l = (p, Some p)"
      using True by (simp add: p_def MHandler_def M_accepted_def Let_def)
    have ip: "itow p = reduce_1pps opts (itow l) (M_fetch_ITOW observer)"
      using True by (simp add: p_def MHandler_def M_accepted_def Let_def)
    have IH: "length (M_pages opts rest p) = length (filter M_accepted rest)"
      "\<And>k. k < length (filter M_accepted rest) \<Longrightarrow>
         itow (M_pages opts rest p ! k)
           = reduce_1pps opts (if k = 0 then itow p else itow (M_pages opts rest p ! (k - 1)))
               (M_fetch_ITOW (filter M_accepted rest ! k))"
      using Cons [of p] by simp_all
    show ?thesis
    proof (intro conjI allI impI)
      show "length (M_pages opts (observer # rest) l) = length (filter M_accepted (observer # rest))"
        using True by (simp add: h IH(1))
    next
      fix k assume k: "k < length (filter M_accepted (observer # rest))"
      show "itow (M_pages opts (observer # rest) l ! k)
          = reduce_1pps opts
              (if k = 0 then itow l else itow (M_pages opts (observer # rest) l ! (k - 1)))
              (M_fetch_ITOW (filter M_accepted (observer # rest) ! k))"
      proof (cases k)
        case 0
        then show ?thesis using True by (simp add: h ip)
      next
        case (Suc k')
        then have "k' < length (filter M_accepted rest)" using k True by simp
        from IH(2) [OF this] show ?thesis
          using True by (cases k') (simp_all add: h Suc)
      qed
    qed
  qed
qed

lemma A_pages_stamps:
  "length (A_pages opts cal oas l) = length (filter A_validate oas)
   \<and> (\<forall>k<length (filter A_validate oas).
         itow (A_pages opts cal oas l ! k)
           = (let t = A_fetch_ITOW (filter A_validate oas ! k);
                  previous = (if k = 0 then itow l else itow (A_pages opts cal oas l ! (k - 1)))
              in if reduce_1pps_sync_error opts \<and> 1 \<le> t - previous \<and> t - previous < 2
                 then t - 1 else t))"
proof (intro conjI allI impI)
  show "length (A_pages opts cal oas l) = length (filter A_validate oas)"
    by (rule A_pages_reduce [THEN conjunct1])
next
  fix k assume k: "k < length (filter A_validate oas)"
  show "itow (A_pages opts cal oas l ! k)
      = (let t = A_fetch_ITOW (filter A_validate oas ! k);
             previous = (if k = 0 then itow l else itow (A_pages opts cal oas l ! (k - 1)))
         in if reduce_1pps_sync_error opts \<and> 1 \<le> t - previous \<and> t - previous < 2
            then t - 1 else t)"
    by (simp add: A_pages_reduce [THEN conjunct2, rule_format, OF k] reduce_1pps_def Let_def)
qed

lemma M_pages_stamps:
  "length (M_pages opts oms l) = length (filter M_accepted oms)
   \<and> (\<forall>k<length (filter M_accepted oms).
         itow (M_pages opts oms l ! k)
           = (let t = M_fetch_ITOW (filter M_accepted oms ! k);
                  previous = (if k = 0 then itow l else itow (M_pages opts oms l ! (k - 1)))
              in if reduce_1pps_sync_error opts \<and> 1 \<le> t - previous \<and> t - previous < 2
                 then t - 1 else t))"
proof (intro conjI allI impI)
  show "length (M_pages opts oms l) = length (filter M_accepted oms)"
    by (rule M_pages_reduce [THEN conjunct1])
next
  fix k assume k: "k < length (filter M_accepted oms)"
  show "itow (M_pages opts oms l ! k)
      = (let t = M_fetch_ITOW (filter M_accepted oms ! k);
             previous = (if k = 0 then itow l else itow (M_pages opts oms l ! (k - 1)))
         in if reduce_1pps_sync_error opts \<and> 1 \<le> t - previous \<and> t - previous < 2
            then t - 1 else t)"
    by (simp add: M_pages_reduce [THEN conjunct2, rule_format, OF k] reduce_1pps_def Let_def)
qed

text \<open>
  C7 (amended).  Each handler keeps \<open>packet_latest\<close>, the packet it delivered last with the
  time stamp it delivered, or a packet with time stamp 0 before the first delivery.  An A
  page that does not validate, and an M page that does not validate or fails the outlier
  test, is dropped and leaves \<open>packet_latest\<close> as it is.  Every other page is delivered:
  when \<open>reduce_1pps_sync_error\<close> is set and the page's time stamp is at least 1 s and less
  than 2 s after the one of \<open>packet_latest\<close>, with one second less than the page's, and with
  the page's time stamp in every other case, so always when the option is off.  For the
  pages of a log this reads: the \<open>k\<close>-th delivered packet is compared with the delivered
  time stamp of the one before it, and the first with 0.
\<close>

theorem C7_reduce_1pps:
  "(A_validate oa \<longrightarrow>
      (\<exists>p. AHandler opts cal oa la = (p, Some p)
         \<and> itow p = (if reduce_1pps_sync_error opts
                         \<and> 1 \<le> A_fetch_ITOW oa - itow la \<and> A_fetch_ITOW oa - itow la < 2
                       then A_fetch_ITOW oa - 1 else A_fetch_ITOW oa)))
   \<and> (\<not> A_validate oa \<longrightarrow> AHandler opts cal oa la = (la, None))
   \<and> (M_accepted om \<longrightarrow>
      (\<exists>p. MHandler opts om lm = (p, Some p)
         \<and> itow p = (if reduce_1pps_sync_error opts
                         \<and> 1 \<le> M_fetch_ITOW om - itow lm \<and> M_fetch_ITOW om - itow lm < 2
                       then M_fetch_ITOW om - 1 else M_fetch_ITOW om)))
   \<and> (\<not> M_accepted om \<longrightarrow> MHandler opts om lm = (lm, None))
   \<and> length (A_pages opts cal oas A_packet_latest) = length (filter A_validate oas)
   \<and> (\<forall>k<length (filter A_validate oas).
         itow (A_pages opts cal oas A_packet_latest ! k)
           = (let t = A_fetch_ITOW (filter A_validate oas ! k);
                  previous = (if k = 0 then 0 else itow (A_pages opts cal oas A_packet_latest ! (k - 1)))
              in if reduce_1pps_sync_error opts \<and> 1 \<le> t - previous \<and> t - previous < 2
                 then t - 1 else t))
   \<and> length (M_pages opts oms M_packet_latest) = length (filter M_accepted oms)
   \<and> (\<forall>k<length (filter M_accepted oms).
         itow (M_pages opts oms M_packet_latest ! k)
           = (let t = M_fetch_ITOW (filter M_accepted oms ! k);
                  previous = (if k = 0 then 0 else itow (M_pages opts oms M_packet_latest ! (k - 1)))
              in if reduce_1pps_sync_error opts \<and> 1 \<le> t - previous \<and> t - previous < 2
                 then t - 1 else t))"
proof -
  have a: "A_validate oa \<longrightarrow>
      (\<exists>p. AHandler opts cal oa la = (p, Some p)
         \<and> itow p = (if reduce_1pps_sync_error opts
                         \<and> 1 \<le> A_fetch_ITOW oa - itow la \<and> A_fetch_ITOW oa - itow la < 2
                       then A_fetch_ITOW oa - 1 else A_fetch_ITOW oa))"
    by (simp add: AHandler_def reduce_1pps_def Let_def)
  have a': "\<not> A_validate oa \<longrightarrow> AHandler opts cal oa la = (la, None)"
    by (simp add: AHandler_def)
  have m: "M_accepted om \<longrightarrow>
      (\<exists>p. MHandler opts om lm = (p, Some p)
         \<and> itow p = (if reduce_1pps_sync_error opts
                         \<and> 1 \<le> M_fetch_ITOW om - itow lm \<and> M_fetch_ITOW om - itow lm < 2
                       then M_fetch_ITOW om - 1 else M_fetch_ITOW om))"
    by (simp add: MHandler_def M_accepted_def reduce_1pps_def Let_def)
  have m': "\<not> M_accepted om \<longrightarrow> MHandler opts om lm = (lm, None)"
    by (auto simp add: MHandler_def M_accepted_def)
  have as: "length (A_pages opts cal oas A_packet_latest) = length (filter A_validate oas)
   \<and> (\<forall>k<length (filter A_validate oas).
         itow (A_pages opts cal oas A_packet_latest ! k)
           = (let t = A_fetch_ITOW (filter A_validate oas ! k);
                  previous = (if k = 0 then 0 else itow (A_pages opts cal oas A_packet_latest ! (k - 1)))
              in if reduce_1pps_sync_error opts \<and> 1 \<le> t - previous \<and> t - previous < 2
                 then t - 1 else t))"
  proof -
    have z: "itow A_packet_latest = 0" by (simp add: A_packet_latest_def)
    show ?thesis using A_pages_stamps [of opts cal oas A_packet_latest] unfolding z .
  qed
  have ms: "length (M_pages opts oms M_packet_latest) = length (filter M_accepted oms)
   \<and> (\<forall>k<length (filter M_accepted oms).
         itow (M_pages opts oms M_packet_latest ! k)
           = (let t = M_fetch_ITOW (filter M_accepted oms ! k);
                  previous = (if k = 0 then 0 else itow (M_pages opts oms M_packet_latest ! (k - 1)))
              in if reduce_1pps_sync_error opts \<and> 1 \<le> t - previous \<and> t - previous < 2
                 then t - 1 else t))"
  proof -
    have z: "itow M_packet_latest = 0" by (simp add: M_packet_latest_def)
    show ?thesis using M_pages_stamps [of opts oms M_packet_latest] unfolding z .
  qed
  show ?thesis using a a' m m' as ms by blast
qed

theorem C7_reduce_1pps_witness:
  "map itow (A_pages (Options 1 True) zero_calibration
       [sample_observer 1.5, sample_observer 3, sample_observer 4.5, sample_observer 5]
       A_packet_latest) = [0.5, 3, 3.5, 4]
   \<and> map itow (A_pages (Options 1 False) zero_calibration
       [sample_observer 1.5, sample_observer 3, sample_observer 4.5, sample_observer 5]
       A_packet_latest) = [1.5, 3, 4.5, 5]
   \<and> map itow (M_pages (Options 1 True)
       [sample_m_observer 1.5, sample_m_observer 3, sample_m_observer 4.5] M_packet_latest)
       = [0.5, 3, 3.5]
   \<and> map_option itow (snd (AHandler (Options 1 True) zero_calibration (sample_observer 11.5)
        (sample_a 10))) = Some 10.5
   \<and> map_option itow (snd (MHandler (Options 1 False) (sample_m_observer 11.5)
        (sample_m 10 (0, 0, 0)))) = Some 11.5"
  using C7_reduce_1pps [where opts = "Options 1 True" and cal = zero_calibration
      and oa = "sample_observer 11.5" and la = "sample_a 10"
      and om = "sample_m_observer 11.5" and lm = "sample_m 10 (0, 0, 0)"
      and oas = "[sample_observer 1.5, sample_observer 3, sample_observer 4.5, sample_observer 5]"
      and oms = "[sample_m_observer 1.5, sample_m_observer 3, sample_m_observer 4.5]"]
    C7_reduce_1pps [where opts = "Options 1 False" and cal = zero_calibration
      and oa = "sample_observer 11.5" and la = "sample_a 10"
      and om = "sample_m_observer 11.5" and lm = "sample_m 10 (0, 0, 0)"
      and oas = "[sample_observer 1.5, sample_observer 3, sample_observer 4.5, sample_observer 5]"
      and oms = "[sample_m_observer 1.5, sample_m_observer 3, sample_m_observer 4.5]"]
  by (simp add: AHandler_def MHandler_def reduce_1pps_def Options_def sample_observer_def
      sample_m_observer_def sample_a_def sample_m_def outlier_def A_packet_latest_def
      M_packet_latest_def Let_def)

section \<open>Results on the sorting buffer\<close>





























section \<open>Results on the UD factorisation\<close>


lemma rows_put [simp]: "rows (put m i j v) = rows m"
  and columns_put [simp]: "columns (put m i j v) = columns m"
  by (simp_all add: put_def)






















section \<open>The determinant under operations on rows and columns\<close>

























section \<open>Results on the two determinants\<close>




























end
